theory Spec2Isabelle
  imports Main
begin

section \<open>JavaScript values, strings and property lookup\<close>

text \<open>
  The handlers read their inputs from an untyped JSON body. The model covers body values
  that are absent (\<open>undefined\<close>), \<open>null\<close>, booleans and strings; strings are lists of
  characters with codes below 256.
\<close>

datatype jsval = JUndefined | JNull | JBool bool | JStr string

text \<open>JavaScript truthiness: \<open>undefined\<close>, \<open>null\<close>, \<open>false\<close> and the empty string are falsy.\<close>

fun truthy :: "jsval \<Rightarrow> bool" where
  "truthy JUndefined = False"
| "truthy JNull = False"
| "truthy (JBool b) = b"
| "truthy (JStr s) = (s \<noteq> [])"

text \<open>The string a template literal \<open>`${v}`\<close> inserts for a value.\<close>

fun template :: "jsval \<Rightarrow> string" where
  "template JUndefined = ''undefined''"
| "template JNull = ''null''"
| "template (JBool b) = (if b then ''true'' else ''false'')"
| "template (JStr s) = s"

text \<open>\<open>a || b\<close> and \<open>a ?? b\<close>.\<close>

definition js_or :: "jsval \<Rightarrow> jsval \<Rightarrow> jsval" where
  "js_or a b = (if truthy a then a else b)"

definition nullish :: "jsval \<Rightarrow> jsval \<Rightarrow> jsval" where
  "nullish a b = (if a = JUndefined \<or> a = JNull then b else a)"

text \<open>
  \<open>String.prototype.trim\<close> removes white space and line terminators at both ends: among
  the characters below 256 these are tab, line feed, vertical tab, form feed, carriage
  return, space and the no-break space.
\<close>

definition is_ws :: "char \<Rightarrow> bool" where
  "is_ws c = (of_char c \<in> {9, 10, 11, 12, 13, 32, 160 :: nat})"

definition trim :: "string \<Rightarrow> string" where
  "trim s = rev (dropWhile is_ws (rev (dropWhile is_ws s)))"

text \<open>
  The "SAFE VALUES" of the handlers:
  \<open>typeof v === "string" && v.trim() ? v.trim() : dflt\<close>.
\<close>

fun clean :: "jsval \<Rightarrow> string \<Rightarrow> string" where
  "clean (JStr s) dflt = (if trim s \<noteq> [] then trim s else dflt)"
| "clean _ dflt = dflt"

text \<open>
  The lookup tables of the source are object literals, and \<open>table[key]\<close> is a property
  read: it finds the table's own entries, and, for a key that is not an own entry, the
  properties every object literal inherits from \<open>Object.prototype\<close>. Those are the
  built-in methods (functions) and the accessor \<open>__proto__\<close> (which yields
  \<open>Object.prototype\<close> itself); any other key reads as \<open>undefined\<close>.
\<close>

datatype 'a lookup = Own 'a | Inherited string | Missing

definition object_prototype_keys :: "string list" where
  "object_prototype_keys =
     [''constructor'', ''__defineGetter__'', ''__defineSetter__'', ''hasOwnProperty'',
      ''__lookupGetter__'', ''__lookupSetter__'', ''isPrototypeOf'',
      ''propertyIsEnumerable'', ''toString'', ''valueOf'', ''__proto__'',
      ''toLocaleString'']"

definition lookup_prop :: "(string \<times> 'a) list \<Rightarrow> string \<Rightarrow> 'a lookup" where
  "lookup_prop table k =
     (case map_of table k of
        Some v \<Rightarrow> Own v
      | None \<Rightarrow> if k \<in> set object_prototype_keys then Inherited k else Missing)"

text \<open>
  What a template literal inserts for an inherited property: the source text of a built-in
  function (\<open>constructor\<close> is the function \<open>Object\<close>), and \<open>[object Object]\<close> for the
  prototype object.
\<close>

definition inherited_text :: "string \<Rightarrow> string" where
  "inherited_text k =
     (if k = ''__proto__'' then ''[object Object]''
      else ''function '' @ (if k = ''constructor'' then ''Object'' else k)
           @ ''() { [native code] }'')"

text \<open>\<open>`${table[key] || dflt}`\<close> for a table of strings: inherited properties are truthy.\<close>

fun text_or :: "string lookup \<Rightarrow> string \<Rightarrow> string" where
  "text_or (Own s) dflt = (if s \<noteq> [] then s else dflt)"
| "text_or (Inherited k) dflt = inherited_text k"
| "text_or Missing dflt = dflt"

text \<open>\<open>if (table[key])\<close> for a table of strings.\<close>

fun prop_truthy :: "string lookup \<Rightarrow> bool" where
  "prop_truthy (Own s) = (s \<noteq> [])"
| "prop_truthy (Inherited k) = True"
| "prop_truthy Missing = False"

text \<open>\<open>`${table[key]}`\<close> for a table of strings.\<close>

fun prop_text :: "string lookup \<Rightarrow> string" where
  "prop_text (Own s) = s"
| "prop_text (Inherited k) = inherited_text k"
| "prop_text Missing = ''undefined''"

section \<open>Prompt composition (part 000)\<close>

definition stylePrompts :: "(string \<times> string) list" where
  "stylePrompts =
     [(''Bold & Graphic'',
       ''eye-catching thumbnail, bold typography, vibrant colors, dramatic lighting, high contrast''),
      (''Tech/Futuristic'',
       ''futuristic thumbnail, glowing UI, cyber-tech aesthetic, neon accents''),
      (''Minimalist'', ''minimalist thumbnail, clean layout, modern flat design''),
      (''Photorealistic'', ''photorealistic thumbnail, DSLR lighting, sharp details''),
      (''Illustrated'', ''illustrated thumbnail, cartoon/vector style, vibrant colors'')]"

definition colorSchemeDescriptions :: "(string \<times> string) list" where
  "colorSchemeDescriptions =
     [(''vibrant'', ''vibrant energetic colors''),
      (''sunset'', ''warm sunset tones''),
      (''forest'', ''natural green tones''),
      (''neon'', ''neon cyberpunk colors''),
      (''purple'', ''purple magenta palette''),
      (''monochrome'', ''black and white contrast''),
      (''ocean'', ''cool blue teal tones''),
      (''pastel'', ''soft pastel colors'')]"

text \<open>
  The "BUILD PROMPT" block of \<open>generateThumbnail\<close>, from the request's \<open>title\<close> and
  \<open>prompt\<close> and the cleaned style and colour keys.
\<close>

definition build_prompt :: "jsval \<Rightarrow> jsval \<Rightarrow> string \<Rightarrow> string \<Rightarrow> string" where
  "build_prompt title user_prompt cleanStyle cleanColor =
     (let p0 = ''Create a '' @ text_or (lookup_prop stylePrompts cleanStyle) ''bold thumbnail'';
          p1 = (if truthy title then p0 @ '' for '' @ [CHR 0x22] @ template title @ [CHR 0x22]
                else p0);
          p2 = (if prop_truthy (lookup_prop colorSchemeDescriptions cleanColor)
                then p1 @ '', '' @ prop_text (lookup_prop colorSchemeDescriptions cleanColor)
                else p1);
          p3 = (if truthy user_prompt then p2 @ ''. '' @ template user_prompt else p2)
      in p3 @ ''. YouTube thumbnail, high CTR, 16:9 composition'')"

section \<open>Image dimensions (part 000)\<close>

definition aspectMap :: "(string \<times> (nat \<times> nat)) list" where
  "aspectMap =
     [(''16:9'', (1024, 576)),
      (''1:1'', (1024, 1024)),
      (''9:16'', (576, 1024)),
      (''4:3'', (1024, 768))]"

text \<open>
  \<open>const dimensions = aspectMap[cleanAspect] || { width: 1024, height: 576 };
  const { width, height } = dimensions;\<close>
  An inherited property is truthy, so it is what \<open>dimensions\<close> becomes; it has neither a
  \<open>width\<close> nor a \<open>height\<close>, and both read as \<open>undefined\<close> (\<open>None\<close>).
\<close>

definition dimensions :: "string \<Rightarrow> nat option \<times> nat option" where
  "dimensions cleanAspect =
     (case lookup_prop aspectMap cleanAspect of
        Own (w, h) \<Rightarrow> (Some w, Some h)
      | Inherited k \<Rightarrow> (None, None)
      | Missing \<Rightarrow> (Some 1024, Some 576))"

section \<open>Prompt composition and image dimensions (server/controllers/ThumbnailController.ts)\<close>

definition stylePrompts_controller :: "(string \<times> string) list" where
  "stylePrompts_controller =
     [(''Bold & Graphic'',
       ''eye-catching thumbnail, bold typography, vibrant colors, expressive facial reaction, dramatic lighting, high contrast, click-worthy composition, professional style''),
      (''Tech/Futuristic'',
       ''futuristic thumbnail, sleek modern design, digital UI elements, glowing accents, holographic effects, cyber-tech aesthetic, sharp lighting, high-tech atmosphere''),
      (''Minimalist'',
       ''minimalist thumbnail, clean layout, simple shapes, limited color palette, plenty of negative space, modern flat design, clear focal point''),
      (''Photorealistic'',
       ''photorealistic thumbnail, ultra-realistic lighting, natural skin tones, candid moment, DSLR-style photography, lifestyle realism, shallow depth of field''),
      (''Illustrated'',
       ''illustrated thumbnail, custom digital illustration, stylized characters, bold outlines, vibrant colors, creative cartoon or vector art style'')]"

definition colorSchemeDescriptions_controller :: "(string \<times> string) list" where
  "colorSchemeDescriptions_controller =
     [(''vibrant'',
       ''vibrant and energetic colors, high saturation, bold contrasts, eye-catching palette''),
      (''sunset'',
       ''warm sunset tones, orange pink and purple hues, soft gradients, cinematic glow''),
      (''forest'',
       ''natural green tones, earthy colors, calm and organic palette, fresh atmosphere''),
      (''neon'',
       ''neon glow effects, electric blues and pinks, cyberpunk lighting, high contrast glow''),
      (''purple'',
       ''purple-dominant color palette, magenta and violet tones, modern and stylish mood''),
      (''monochrome'',
       ''black and white color scheme, high contrast, dramatic lighting, timeless aesthetic''),
      (''ocean'',
       ''cool blue and teal tones, aquatic color palette, fresh and clean atmosphere''),
      (''pastel'',
       ''soft pastel colors, low saturation, gentle tones, calm and friendly aesthetic'')]"

text \<open>
  This file's "BUILD PROMPT" block: the title is interpolated whether or not it is set,
  and the closing sentence names the cleaned aspect ratio.
\<close>

definition build_prompt_controller ::
  "jsval \<Rightarrow> jsval \<Rightarrow> string \<Rightarrow> string \<Rightarrow> string \<Rightarrow> string" where
  "build_prompt_controller title user_prompt cleanStyle cleanColor cleanAspect =
     (let p0 = ''Create a ''
                 @ text_or (lookup_prop stylePrompts_controller cleanStyle) ''bold graphic thumbnail''
                 @ '' for: '' @ [CHR 0x22] @ template title @ [CHR 0x22];
          p1 = (if prop_truthy (lookup_prop colorSchemeDescriptions_controller cleanColor)
                then p0 @ '' Use a ''
                       @ prop_text (lookup_prop colorSchemeDescriptions_controller cleanColor)
                       @ '' color scheme.''
                else p0);
          p2 = (if truthy user_prompt
                then p1 @ '' Additional details: '' @ template user_prompt @ ''.''
                else p1)
      in p2 @ '' Thumbnail '' @ cleanAspect @ '', visually stunning, high CTR.'')"

definition aspectMap_controller :: "(string \<times> string) list" where
  "aspectMap_controller =
     [(''16:9'', ''1024x576''),
      (''1:1'', ''1024x1024''),
      (''9:16'', ''576x1024'')]"

text \<open>\<open>s.split(c)\<close> for a separator of one character.\<close>

fun split_on :: "char \<Rightarrow> string \<Rightarrow> string list" where
  "split_on c [] = [[]]"
| "split_on c (x # xs) =
     (if x = c then [] # split_on c xs
      else (case split_on c xs of p # ps \<Rightarrow> (x # p) # ps | [] \<Rightarrow> [[x]]))"

text \<open>
  \<open>Number(s)\<close> on a string of decimal digits (the empty string converts to 0). The
  strings converted here are the pieces of the table's literals, which are digit strings;
  \<open>None\<close> stands for a string with any other character, which is not converted here.
\<close>

definition is_digit :: "char \<Rightarrow> bool" where
  "is_digit c = (48 \<le> (of_char c :: nat) \<and> (of_char c :: nat) \<le> 57)"

definition Number_js :: "string \<Rightarrow> nat option" where
  "Number_js s =
     (if list_all is_digit s
      then Some (foldl (\<lambda>n c. 10 * n + (of_char c - 48)) 0 s)
      else None)"

datatype err = Err string

text \<open>\<open>error.message\<close>.\<close>

fun err_message :: "err \<Rightarrow> string" where
  "err_message (Err m) = m"

text \<open>
  \<open>const [width, height] = (aspectMap[cleanAspect] || "1024x576").split("x").map(Number);\<close>
  An inherited property is truthy and is not a string: calling its \<open>split\<close> throws a
  \<open>TypeError\<close>.
\<close>

definition nth_piece :: "string list \<Rightarrow> nat \<Rightarrow> nat option" where
  "nth_piece ps i = (if i < length ps then Number_js (ps ! i) else None)"

definition dimensions_controller :: "string \<Rightarrow> err + (nat option \<times> nat option)" where
  "dimensions_controller cleanAspect =
     (case lookup_prop aspectMap_controller cleanAspect of
        Inherited k \<Rightarrow> Inl (Err (''(aspectMap[cleanAspect] || '' @ [CHR 0x22] @ ''1024x576'' @ [CHR 0x22]
                   @ '').split is not a function''))
      | Own s \<Rightarrow>
          (let ps = split_on (CHR ''x'') (if s \<noteq> [] then s else ''1024x576'')
           in Inr (nth_piece ps 0, nth_piece ps 1))
      | Missing \<Rightarrow>
          (let ps = split_on (CHR ''x'') ''1024x576''
           in Inr (nth_piece ps 0, nth_piece ps 1)))"

section \<open>Requests, records, the world outside\<close>

type_synonym bytes = "nat list"

text \<open>
  The persisted record, with the fields the handlers write. \<open>doc_id\<close> is the document's
  \<open>_id\<close>. \<open>title\<close>, \<open>prompt_used\<close> and \<open>text_overlay\<close> hold the values handed to the store.
\<close>

record thumbnail =
  doc_id :: string
  userId :: string
  title :: jsval
  prompt_used :: jsval
  style :: string
  aspect_ratio :: string
  color_scheme :: string
  text_overlay :: jsval
  isGenerating :: bool
  image_url :: "string option"
  error :: "string option"

text \<open>
  A request: \<open>session\<close> is \<open>req.session\<close> (\<open>None\<close> when there is no session object, \<open>Some None\<close>
  when the session has no \<open>userId\<close>), the \<open>body_\<close> fields are the fields of the object
  \<open>req.body\<close>, \<open>param_id\<close> is \<open>req.params.id\<close>.
\<close>

record request =
  session :: "string option option"
  body_title :: jsval
  body_prompt :: jsval
  body_style :: jsval
  body_aspect_ratio :: jsval
  body_color_scheme :: jsval
  body_text_overlay :: jsval
  param_id :: string

text \<open>\<open>const { userId } = req.session || {};\<close> and the test \<open>!userId\<close>.\<close>

definition session_userId :: "request \<Rightarrow> string option" where
  "session_userId req = (case session req of None \<Rightarrow> None | Some u \<Rightarrow> u)"

fun authenticated :: "string option \<Rightarrow> bool" where
  "authenticated None = False"
| "authenticated (Some u) = (u \<noteq> [])"

text \<open>
  What the collaborators answer during one request: each call either returns or throws.
  \<open>http_get i\<close> is the outcome of the image request issued at loop index \<open>i\<close>; \<open>now\<close> is
  \<open>Date.now()\<close> as the file name shows it; \<open>upload\<close> returns the secure URL.
\<close>

record env =
  db_create :: "err option"
  new_id :: string
  http_get :: "nat \<Rightarrow> err + bytes"
  now :: string
  fs_write :: "err option"
  upload :: "err + string"
  db_save :: "err option"
  fs_unlink :: "err option"
  db_save_recovery :: "err option"

text \<open>
  The effects of a handler, in the order they happen. \<open>HttpGet i p w h\<close> is the image
  request of loop index \<open>i\<close>, for prompt \<open>p\<close>, width \<open>w\<close> and height \<open>h\<close>.
\<close>

datatype event =
  DbCreate | Sleep nat | HttpGet nat string "nat option" "nat option" | FsWrite string
  | Upload string | DbSave | FsUnlink string

text \<open>The calls that leave for an image provider or the storage provider.\<close>

fun outbound :: "event \<Rightarrow> bool" where
  "outbound (HttpGet i p w h) = True"
| "outbound (Upload p) = True"
| "outbound _ = False"

text \<open>
  Modelled from the spec: the Thumbnail model (models/Thumbnail.ts) and its document store
  are not among the sources. The store is a map from document ids to records: create
  stores the record it is given under a new id, save writes the handler's record back
  under its id, and the owner-scoped delete removes the record that has the given id and
  the given owner. The local file system is a map from paths to contents.
\<close>

record state =
  store :: "string \<rightharpoonup> thumbnail"
  files :: "string \<rightharpoonup> bytes"
  trace :: "event list"

definition log_event :: "event \<Rightarrow> state \<Rightarrow> state" where
  "log_event ev s = s\<lparr>trace := trace s @ [ev]\<rparr>"

definition save :: "thumbnail \<Rightarrow> state \<Rightarrow> state" where
  "save d s = s\<lparr>store := (store s)(doc_id d \<mapsto> d)\<rparr>"

text \<open>
  A response: the HTTP status and the fields \<open>message\<close>, \<open>thumbnail\<close> and \<open>error\<close> of its
  JSON body (\<open>None\<close> for a field the body does not have).
\<close>

record response =
  status :: nat
  message :: string
  thumb :: "thumbnail option"
  err_text :: "string option"

section \<open>Image acquisition (part 000)\<close>

text \<open>
  The loop of \<open>generateImageWithFallbacks\<close>. \<open>services\<close> holds, for each service of the
  source's list, what calling it gives: the response's data or the error it throws.
  The sleep before a retry is \<open>1000 * Math.pow(2, i - 1)\<close> milliseconds.
\<close>

function try_services ::
  "string \<Rightarrow> nat option \<Rightarrow> nat option \<Rightarrow> (err + bytes) list \<Rightarrow> nat
     \<Rightarrow> event list \<times> (err + bytes)" where
  "try_services prompt width height services i =
     (if i < length services then
        (let evs = (if 0 < i then [Sleep (1000 * 2 ^ (i - 1))] else [])
                   @ [HttpGet i prompt width height]
         in case services ! i of
              Inr data \<Rightarrow> (evs, Inr data)
            | Inl er \<Rightarrow>
                if i = length services - 1
                then (evs, Inl (Err ''All image services failed''))
                else (case try_services prompt width height services (Suc i) of
                        (tr, r) \<Rightarrow> (evs @ tr, r)))
      else ([], Inl (Err ''No image services available'')))"
  by pat_completeness auto
termination
  by (relation "measure (\<lambda>(prompt, width, height, services, i). length services - i)") auto

definition generateImageWithFallbacks ::
  "string \<Rightarrow> nat option \<Rightarrow> nat option \<Rightarrow> (err + bytes) list
     \<Rightarrow> event list \<times> (err + bytes)" where
  "generateImageWithFallbacks prompt width height services =
     try_services prompt width height services 0"

section \<open>The generate handler (part 000)\<close>

text \<open>The record handed to \<open>Thumbnail.create\<close>.\<close>

definition new_thumbnail :: "env \<Rightarrow> string \<Rightarrow> request \<Rightarrow> thumbnail" where
  "new_thumbnail e uid req =
     \<lparr>doc_id = new_id e,
      userId = uid,
      title = js_or (body_title req) (JStr []),
      prompt_used = js_or (body_prompt req) (JStr []),
      style = clean (body_style req) ''Bold & Graphic'',
      aspect_ratio = clean (body_aspect_ratio req) ''16:9'',
      color_scheme = clean (body_color_scheme req) ''vibrant'',
      text_overlay = nullish (body_text_overlay req) (JBool True),
      isGenerating = True,
      image_url = None,
      error = None\<rparr>"

text \<open>\<open>path.join("images", `thumbnail-${Date.now()}.png`)\<close>.\<close>

definition filepath :: "env \<Rightarrow> string" where
  "filepath e = ''images/thumbnail-'' @ now e @ ''.png''"

definition not_authenticated :: response where
  "not_authenticated =
     \<lparr>status = 401, message = ''User not authenticated'', thumb = None, err_text = None\<rparr>"

text \<open>
  The \<open>catch\<close> block: \<open>th\<close> is the variable \<open>thumbnail\<close> (\<open>None\<close> while it is unset). The
  recovery save is \<open>await thumbnail.save().catch(() => {})\<close>: when it fails, nothing is
  written and nothing is thrown.
\<close>

definition catch_block :: "env \<Rightarrow> err \<Rightarrow> thumbnail option \<Rightarrow> state \<Rightarrow> response \<times> state" where
  "catch_block e er th s =
     (case th of
        None \<Rightarrow>
          (\<lparr>status = 500, message = ''Image generation failed but fallback used'',
            thumb = None, err_text = Some (err_message er)\<rparr>, s)
      | Some d \<Rightarrow>
          (let d' = d\<lparr>isGenerating := False,
                      error := Some (if err_message er \<noteq> [] then err_message er
                                     else ''Generation failed'')\<rparr>;
               s' = log_event DbSave s;
               s'' = (case db_save_recovery e of None \<Rightarrow> save d' s' | Some er' \<Rightarrow> s')
           in (\<lparr>status = 500, message = ''Image generation failed but fallback used'',
                thumb = Some d', err_text = Some (err_message er)\<rparr>, s'')))"

text \<open>
  The \<open>try\<close> block after the image bytes have arrived, by the source's own headings,
  last step first. Every step that throws hands the error and the variable \<open>thumbnail\<close>
  to the \<open>catch\<close> block.
\<close>

text \<open>"UPDATE DB", then \<open>fs.unlinkSync(filepath)\<close> and the 200 response.\<close>

definition update_db :: "env \<Rightarrow> thumbnail \<Rightarrow> string \<Rightarrow> state \<Rightarrow> response \<times> state" where
  "update_db e created secure_url s =
     (let updated = created\<lparr>image_url := Some secure_url, isGenerating := False\<rparr>;
          s1 = log_event DbSave s
      in case db_save e of
           Some er \<Rightarrow> catch_block e er (Some updated) s1
         | None \<Rightarrow>
             (let s2 = save updated s1;
                  s3 = log_event (FsUnlink (filepath e)) s2
              in case fs_unlink e of
                   Some er \<Rightarrow> catch_block e er (Some updated) s3
                 | None \<Rightarrow>
                     (\<lparr>status = 200, message = ''Thumbnail generated successfully'',
                       thumb = Some updated, err_text = None\<rparr>,
                      s3\<lparr>files := (files s3)(filepath e := None)\<rparr>)))"

text \<open>"CLOUDINARY UPLOAD".\<close>

definition cloudinary_upload :: "env \<Rightarrow> thumbnail \<Rightarrow> state \<Rightarrow> response \<times> state" where
  "cloudinary_upload e created s =
     (let s1 = log_event (Upload (filepath e)) s
      in case upload e of
           Inl er \<Rightarrow> catch_block e er (Some created) s1
         | Inr secure_url \<Rightarrow> update_db e created secure_url s1)"

text \<open>"SAVE TEMP FILE": \<open>fs.mkdirSync\<close> and \<open>fs.writeFileSync(filepath, finalBuffer)\<close>.\<close>

definition save_temp_file :: "env \<Rightarrow> thumbnail \<Rightarrow> bytes \<Rightarrow> state \<Rightarrow> response \<times> state" where
  "save_temp_file e created imageBuffer s =
     (let s1 = log_event (FsWrite (filepath e)) s
      in case fs_write e of
           Some er \<Rightarrow> catch_block e er (Some created) s1
         | None \<Rightarrow>
             cloudinary_upload e created
               (s1\<lparr>files := (files s1)(filepath e \<mapsto> imageBuffer)\<rparr>))"

text \<open>The handler, from the session check to the image acquisition.\<close>

definition generateThumbnail :: "env \<Rightarrow> request \<Rightarrow> state \<Rightarrow> response \<times> state" where
  "generateThumbnail e req s =
     (case session_userId req of
        None \<Rightarrow> (not_authenticated, s)
      | Some uid \<Rightarrow>
          if uid = [] then (not_authenticated, s)
          else
            (let s1 = log_event DbCreate s
             in case db_create e of
                  Some er \<Rightarrow> catch_block e er None s1
                | None \<Rightarrow>
                    (let created = new_thumbnail e uid req;
                         s2 = save created s1;
                         prompt = build_prompt (body_title req) (body_prompt req)
                                    (style created) (color_scheme created);
                         (width, height) = dimensions (aspect_ratio created);
                         (tr, r) = generateImageWithFallbacks prompt width height
                                     (map (http_get e) [0..<4]);
                         s3 = s2\<lparr>trace := trace s2 @ tr\<rparr>
                     in case r of
                          Inl er \<Rightarrow> catch_block e er (Some created) s3
                        | Inr imageBuffer \<Rightarrow> save_temp_file e created imageBuffer s3)))"

section \<open>The generate handler (server/controllers/ThumbnailController.ts)\<close>

text \<open>
  This file's handler asks one provider up to three times, without sleeping, and rethrows
  the third error. Leaving the loop without a buffer would make \<open>Buffer.from(undefined)\<close>
  throw.
\<close>

function fetch_attempts ::
  "string \<Rightarrow> nat option \<Rightarrow> nat option \<Rightarrow> (nat \<Rightarrow> err + bytes) \<Rightarrow> nat
     \<Rightarrow> event list \<times> (err + bytes)" where
  "fetch_attempts prompt width height get attempt =
     (if attempt < 3 then
        (case get attempt of
           Inr data \<Rightarrow> ([HttpGet attempt prompt width height], Inr data)
         | Inl er \<Rightarrow>
             if attempt = 2 then ([HttpGet attempt prompt width height], Inl er)
             else (case fetch_attempts prompt width height get (Suc attempt) of
                     (tr, r) \<Rightarrow> (HttpGet attempt prompt width height # tr, r)))
      else ([], Inl (Err ''The first argument must be of type string or an instance of Buffer, ArrayBuffer, or Array or an Array-like Object. Received undefined'')))"
  by pat_completeness auto
termination
  by (relation "measure (\<lambda>(prompt, width, height, get, attempt). 3 - attempt)") auto

text \<open>Its \<open>catch\<close> block answers 500 with the error's message and leaves the record alone.\<close>

definition catch_block_controller :: "err \<Rightarrow> state \<Rightarrow> response \<times> state" where
  "catch_block_controller er s =
     (\<lparr>status = 500, message = err_message er, thumb = None, err_text = None\<rparr>, s)"

definition update_db_controller ::
  "env \<Rightarrow> thumbnail \<Rightarrow> string \<Rightarrow> state \<Rightarrow> response \<times> state" where
  "update_db_controller e created secure_url s =
     (let updated = created\<lparr>image_url := Some secure_url, isGenerating := False\<rparr>;
          s1 = log_event DbSave s
      in case db_save e of
           Some er \<Rightarrow> catch_block_controller er s1
         | None \<Rightarrow>
             (let s2 = save updated s1;
                  s3 = log_event (FsUnlink (filepath e)) s2
              in case fs_unlink e of
                   Some er \<Rightarrow> catch_block_controller er s3
                 | None \<Rightarrow>
                     (\<lparr>status = 200, message = ''Thumbnail Generated'',
                       thumb = Some updated, err_text = None\<rparr>,
                      s3\<lparr>files := (files s3)(filepath e := None)\<rparr>)))"

definition cloudinary_upload_controller ::
  "env \<Rightarrow> thumbnail \<Rightarrow> state \<Rightarrow> response \<times> state" where
  "cloudinary_upload_controller e created s =
     (let s1 = log_event (Upload (filepath e)) s
      in case upload e of
           Inl er \<Rightarrow> catch_block_controller er s1
         | Inr secure_url \<Rightarrow> update_db_controller e created secure_url s1)"

definition save_temp_file_controller ::
  "env \<Rightarrow> thumbnail \<Rightarrow> bytes \<Rightarrow> state \<Rightarrow> response \<times> state" where
  "save_temp_file_controller e created imageBuffer s =
     (let s1 = log_event (FsWrite (filepath e)) s
      in case fs_write e of
           Some er \<Rightarrow> catch_block_controller er s1
         | None \<Rightarrow>
             cloudinary_upload_controller e created
               (s1\<lparr>files := (files s1)(filepath e \<mapsto> imageBuffer)\<rparr>))"

definition generateThumbnail_controller ::
  "env \<Rightarrow> request \<Rightarrow> state \<Rightarrow> response \<times> state" where
  "generateThumbnail_controller e req s =
     (case session_userId req of
        None \<Rightarrow> (not_authenticated, s)
      | Some uid \<Rightarrow>
          if uid = [] then (not_authenticated, s)
          else
            (let s1 = log_event DbCreate s
             in case db_create e of
                  Some er \<Rightarrow> catch_block_controller er s1
                | None \<Rightarrow>
                    (let created = new_thumbnail e uid req;
                         s2 = save created s1;
                         prompt = build_prompt_controller (body_title req) (body_prompt req)
                                    (style created) (color_scheme created)
                                    (aspect_ratio created)
                     in case dimensions_controller (aspect_ratio created) of
                          Inl er \<Rightarrow> catch_block_controller er s2
                        | Inr (width, height) \<Rightarrow>
                            (case fetch_attempts prompt width height (http_get e) 0 of
                               (tr, r) \<Rightarrow>
                                 (let s3 = s2\<lparr>trace := trace s2 @ tr\<rparr>
                                  in case r of
                                       Inl er \<Rightarrow> catch_block_controller er s3
                                     | Inr imageBuffer \<Rightarrow>
                                         save_temp_file_controller e created imageBuffer s3)))))"

section \<open>The delete handlers\<close>

text \<open>
  Modelled from the spec: \<open>Thumbnail.findOneAndDelete({ _id: id, userId })\<close> is an equality
  filter on the record's id and on its owner. It returns the record it removed, or nothing.
  Every record has an owner, so a request without a \<open>userId\<close> matches no record.
\<close>

definition findOneAndDelete ::
  "string \<Rightarrow> string option \<Rightarrow> (string \<rightharpoonup> thumbnail)
     \<Rightarrow> thumbnail option \<times> (string \<rightharpoonup> thumbnail)" where
  "findOneAndDelete i owner st =
     (case st i of
        None \<Rightarrow> (None, st)
      | Some d \<Rightarrow> if Some (userId d) = owner then (Some d, st(i := None)) else (None, st))"

text \<open>
  \<open>deleteThumbnail\<close> of part 000. \<open>db_throws\<close> is the error of the store call when it throws.
\<close>

definition deleteThumbnail :: "err option \<Rightarrow> request \<Rightarrow> state \<Rightarrow> response \<times> state" where
  "deleteThumbnail db_throws req s =
     (case db_throws of
        Some er \<Rightarrow>
          (\<lparr>status = 500, message = err_message er, thumb = None, err_text = None\<rparr>, s)
      | None \<Rightarrow>
          (case findOneAndDelete (param_id req) (session_userId req) (store s) of
             (None, st) \<Rightarrow>
               (\<lparr>status = 404, message = ''Thumbnail not found'', thumb = None,
                 err_text = None\<rparr>, s)
           | (Some d, st) \<Rightarrow>
               (\<lparr>status = 200, message = ''Thumbnail deleted successfully'', thumb = None,
                 err_text = None\<rparr>, s\<lparr>store := st\<rparr>)))"

text \<open>
  \<open>deleteThumbnail\<close> of part 001 (both versions in that file): the same store call, whose
  result is not looked at.
\<close>

definition deleteThumbnail_part001 ::
  "err option \<Rightarrow> request \<Rightarrow> state \<Rightarrow> response \<times> state" where
  "deleteThumbnail_part001 db_throws req s =
     (case db_throws of
        Some er \<Rightarrow>
          (\<lparr>status = 500, message = err_message er, thumb = None, err_text = None\<rparr>, s)
      | None \<Rightarrow>
          (case findOneAndDelete (param_id req) (session_userId req) (store s) of
             (result, st) \<Rightarrow>
               (\<lparr>status = 200, message = ''Thumbnail deleted successfully'', thumb = None,
                 err_text = None\<rparr>, s\<lparr>store := st\<rparr>)))"

text \<open>
  Modelled from the spec: \<open>Thumbnail.findByIdAndDelete({ _id: id, userId })\<close>, the store call
  of part 002, is the unscoped lookup by id that the spec's design notes report: the
  record with that id is removed whoever owns it.
\<close>

definition findByIdAndDelete ::
  "string \<Rightarrow> (string \<rightharpoonup> thumbnail) \<Rightarrow> thumbnail option \<times> (string \<rightharpoonup> thumbnail)" where
  "findByIdAndDelete i st = (st i, st(i := None))"

text \<open>
  \<open>deleteThumbnail\<close> of part 002: \<open>const {userId} = req.session;\<close> throws when there is no
  session object.
\<close>

definition deleteThumbnail_part002 ::
  "err option \<Rightarrow> request \<Rightarrow> state \<Rightarrow> response \<times> state" where
  "deleteThumbnail_part002 db_throws req s =
     (case session req of
        None \<Rightarrow>
          (\<lparr>status = 500,
            message = ''Cannot destructure property 'userId' of 'req.session' as it is undefined.'',
            thumb = None, err_text = None\<rparr>, s)
      | Some uid \<Rightarrow>
          (case db_throws of
             Some er \<Rightarrow>
               (\<lparr>status = 500, message = err_message er, thumb = None, err_text = None\<rparr>, s)
           | None \<Rightarrow>
               (case findByIdAndDelete (param_id req) (store s) of
                  (result, st) \<Rightarrow>
                    (\<lparr>status = 200, message = ''Thumbnail deleted successfully'',
                      thumb = None, err_text = None\<rparr>, s\<lparr>store := st\<rparr>))))"

section \<open>Observations on a run\<close>

text \<open>
  What one pass of the acquisition loop at index \<open>i\<close> does: the sleep of
  \<open>1000 * 2 ^ (i - 1)\<close> milliseconds when \<open>i > 0\<close>, then the request of service \<open>i\<close>.
\<close>

definition attempt_events :: "string \<Rightarrow> nat option \<Rightarrow> nat option \<Rightarrow> nat \<Rightarrow> event list" where
  "attempt_events p w h i =
     (if 0 < i then [Sleep (1000 * 2 ^ (i - 1))] else []) @ [HttpGet i p w h]"

text \<open>The services requested, in order, and the milliseconds slept in total.\<close>

fun attempts :: "event list \<Rightarrow> nat list" where
  "attempts [] = []"
| "attempts (HttpGet i p w h # evs) = i # attempts evs"
| "attempts (ev # evs) = attempts evs"

fun backoff :: "event list \<Rightarrow> nat" where
  "backoff [] = 0"
| "backoff (Sleep ms # evs) = ms + backoff evs"
| "backoff (ev # evs) = backoff evs"


text \<open>Example inputs: a world in which every call succeeds, a request, two states.\<close>

definition example_env :: env where
  "example_env =
     \<lparr>db_create = None,
      new_id = ''t1'',
      http_get = (\<lambda>i. Inr [137, 80, 78, 71]),
      now = ''1700000000000'',
      fs_write = None,
      upload = Inr ''https://res.cloudinary.com/demo/image/upload/thumbnails/t1.png'',
      db_save = None,
      fs_unlink = None,
      db_save_recovery = None\<rparr>"

definition example_request :: request where
  "example_request =
     \<lparr>session = Some (Some ''alice''),
      body_title = JStr ''Test'',
      body_prompt = JStr ''a cat'',
      body_style = JStr ''Minimalist'',
      body_aspect_ratio = JStr ''1:1'',
      body_color_scheme = JStr ''pastel'',
      body_text_overlay = JUndefined,
      param_id = ''t1''\<rparr>"

definition empty_state :: state where
  "empty_state = \<lparr>store = Map.empty, files = Map.empty, trace = []\<rparr>"

definition example_record :: thumbnail where
  "example_record =
     \<lparr>doc_id = ''t1'',
      userId = ''alice'',
      title = JStr ''Test'',
      prompt_used = JStr ''a cat'',
      style = ''Minimalist'',
      aspect_ratio = ''1:1'',
      color_scheme = ''pastel'',
      text_overlay = JBool True,
      isGenerating = False,
      image_url = Some ''https://res.cloudinary.com/demo/image/upload/thumbnails/t1.png'',
      error = None\<rparr>"

definition example_state :: state where
  "example_state =
     \<lparr>store = [''t1'' \<mapsto> example_record], files = Map.empty, trace = []\<rparr>"

text \<open>Worlds in which one collaborator fails, and requests of other sessions.\<close>

definition env_unlink_fails :: env where
  "env_unlink_fails = example_env\<lparr>fs_unlink := Some (Err ''EBUSY: resource busy or locked'')\<rparr>"

fun provider_down :: "nat \<Rightarrow> err + bytes" where
  "provider_down i = Inl (Err ''timeout of 25000ms exceeded'')"

definition env_providers_down :: env where
  "env_providers_down = example_env\<lparr>http_get := provider_down\<rparr>"

definition env_store_down :: env where
  "env_store_down = env_providers_down\<lparr>db_save_recovery := Some (Err ''connection closed'')\<rparr>"

definition env_upload_fails :: env where
  "env_upload_fails = example_env\<lparr>upload := Inl (Err ''Upload failed'')\<rparr>"

definition env_write_fails_store_down :: env where
  "env_write_fails_store_down =
     example_env\<lparr>fs_write := Some (Err ''ENOSPC: no space left on device''),
                  db_save_recovery := Some (Err ''connection closed'')\<rparr>"

definition env_upload_fails_store_down :: env where
  "env_upload_fails_store_down =
     env_upload_fails\<lparr>db_save_recovery := Some (Err ''connection closed'')\<rparr>"

definition env_save_fails_store_down :: env where
  "env_save_fails_store_down =
     example_env\<lparr>db_save := Some (Err ''write conflict''),
                  db_save_recovery := Some (Err ''connection closed'')\<rparr>"

definition env_unlink_fails_store_down :: env where
  "env_unlink_fails_store_down =
     env_unlink_fails\<lparr>db_save_recovery := Some (Err ''connection closed'')\<rparr>"

definition request_bob :: request where
  "request_bob = example_request\<lparr>session := Some (Some ''bob'')\<rparr>"

definition request_no_session :: request where
  "request_no_session = example_request\<lparr>session := None\<rparr>"

definition request_no_user :: request where
  "request_no_user = example_request\<lparr>session := Some None\<rparr>"

section \<open>Image acquisition: order of attempts and backoff\<close>

declare try_services.simps [simp del]
declare fetch_attempts.simps [simp del]

lemma attempts_append: "attempts (xs @ ys) = attempts xs @ attempts ys"
  by (induction xs rule: attempts.induct) simp_all

lemma backoff_append: "backoff (xs @ ys) = backoff xs + backoff ys"
  by (induction xs rule: backoff.induct) simp_all

lemma attempts_attempt_events: "attempts (attempt_events p w h i) = [i]"
  by (simp add: attempt_events_def)

lemma backoff_attempt_events:
  "backoff (attempt_events p w h i) = (if 0 < i then 1000 * 2 ^ (i - 1) else 0)"
  by (simp add: attempt_events_def)

lemma attempts_run:
  "attempts (concat (map (attempt_events p w h) [i..<j])) = [i..<j]"
  by (induction j) (simp_all add: attempts_append attempts_attempt_events)

lemma backoff_run:
  "backoff (concat (map (attempt_events p w h) [0..<Suc k]))
   = (\<Sum>i = 1..k. 1000 * 2 ^ (i - 1))"
proof (induction k)
  case 0
  show ?case by (simp add: backoff_attempt_events)
next
  case (Suc k)
  have "backoff (concat (map (attempt_events p w h) [0..<Suc (Suc k)]))
        = backoff (concat (map (attempt_events p w h) [0..<Suc k])) + 1000 * 2 ^ k"
    by (simp add: backoff_append backoff_attempt_events)
  with Suc show ?case by simp
qed

text \<open>One pass of the loop, by what the service at index \<open>i\<close> answers.\<close>

lemma try_services_step:
  assumes "i < length services" and "services ! i = Inl er" and "i \<noteq> length services - 1"
  shows "try_services p w h services i
         = (attempt_events p w h i @ fst (try_services p w h services (Suc i)),
            snd (try_services p w h services (Suc i)))"
  using assms
  by (subst try_services.simps) (simp add: attempt_events_def split: prod.split)

lemma try_services_hit:
  assumes "i < length services" and "services ! i = Inr payload"
  shows "try_services p w h services i = (attempt_events p w h i, Inr payload)"
  using assms
  by (subst try_services.simps) (simp add: attempt_events_def)

lemma try_services_last:
  assumes "i < length services" and "services ! i = Inl er" and "i = length services - 1"
  shows "try_services p w h services i
         = (attempt_events p w h i, Inl (Err ''All image services failed''))"
  using assms
  by (subst try_services.simps) (simp add: attempt_events_def)

lemma try_services_first_success:
  assumes "k < length services" and "services ! k = Inr payload"
    and "\<forall>j. i \<le> j \<and> j < k \<longrightarrow> isl (services ! j)" and "i \<le> k"
  shows "try_services p w h services i
         = (concat (map (attempt_events p w h) [i..<Suc k]), Inr payload)"
  using assms
proof (induction "k - i" arbitrary: i)
  case 0
  then have "i = k" by simp
  with 0 show ?case
    by (simp add: try_services_hit)
next
  case (Suc n)
  then have lt: "i < k" by simp
  with Suc.prems have fails: "isl (services ! i)" by simp
  then obtain er where er: "services ! i = Inl er" by (cases "services ! i") simp_all
  have ne: "i \<noteq> length services - 1" using lt Suc.prems(1) by simp
  have rest: "try_services p w h services (Suc i)
              = (concat (map (attempt_events p w h) [Suc i..<Suc k]), Inr payload)"
    using Suc.hyps Suc.prems lt by (intro Suc.hyps(1)) auto
  have split: "[i..<Suc k] = i # [Suc i..<Suc k]"
    using lt by (simp add: upt_conv_Cons)
  have "i < length services" using lt Suc.prems(1) by simp
  from try_services_step [OF this er ne, of p w h] rest split
  show ?case by (simp del: upt_Suc)
qed

lemma try_services_all_fail:
  assumes "\<forall>j. i \<le> j \<and> j < length services \<longrightarrow> isl (services ! j)"
    and "i < length services"
  shows "try_services p w h services i
         = (concat (map (attempt_events p w h) [i..<length services]),
            Inl (Err ''All image services failed''))"
  using assms
proof (induction "length services - i" arbitrary: i)
  case 0
  then show ?case by simp
next
  case (Suc n)
  from Suc.prems have "isl (services ! i)" by simp
  then obtain er where er: "services ! i = Inl er" by (cases "services ! i") simp_all
  have split: "[i..<length services] = i # [Suc i..<length services]"
    using Suc.prems(2) by (simp add: upt_conv_Cons)
  show ?case
  proof (cases "i = length services - 1")
    case True
    then have "[Suc i..<length services] = []" using Suc.prems(2) by simp
    with split try_services_last [OF Suc.prems(2) er True, of p w h] show ?thesis
      by simp
  next
    case False
    with Suc.prems(2) have lt: "Suc i < length services" by simp
    have rest: "try_services p w h services (Suc i)
                = (concat (map (attempt_events p w h) [Suc i..<length services]),
                   Inl (Err ''All image services failed''))"
      using Suc.hyps Suc.prems lt by (intro Suc.hyps(1)) auto
    from try_services_step [OF Suc.prems(2) er False, of p w h] rest split
    show ?thesis by simp
  qed
qed

lemma try_services_none:
  "try_services p w h [] 0 = ([], Inl (Err ''No image services available''))"
  by (subst try_services.simps) simp

text \<open>
  C3. If service \<open>k\<close> is the first that succeeds, the run is exactly the passes
  \<open>0, ..., k\<close> of the loop in order: every service before \<open>k\<close> is requested once, a sleep of
  \<open>1000 * 2 ^ (i - 1)\<close> milliseconds precedes each request \<open>i > 0\<close>, the sleeps add up to
  the sum of \<open>1000 * 2 ^ (i - 1)\<close> for \<open>i\<close> from 1 to \<open>k\<close>, no service after \<open>k\<close> is
  requested, and the payload of service \<open>k\<close> is the result. If every service fails, the
  result is an error and no bytes, after each service was requested once.
\<close>

theorem acquisition_first_success_and_exhaustion:
  "(k < length services \<and> services ! k = Inr payload \<and> (\<forall>j<k. isl (services ! j))
      \<longrightarrow> snd (generateImageWithFallbacks p w h services) = Inr payload
        \<and> fst (generateImageWithFallbacks p w h services)
            = concat (map (attempt_events p w h) [0..<Suc k])
        \<and> attempts (fst (generateImageWithFallbacks p w h services)) = [0..<Suc k]
        \<and> backoff (fst (generateImageWithFallbacks p w h services))
            = (\<Sum>i = 1..k. 1000 * 2 ^ (i - 1)))
   \<and> ((\<forall>j<length services. isl (services ! j))
      \<longrightarrow> isl (snd (generateImageWithFallbacks p w h services))
        \<and> attempts (fst (generateImageWithFallbacks p w h services))
            = [0..<length services])"
proof (intro conjI impI)
  assume a: "k < length services \<and> services ! k = Inr payload \<and> (\<forall>j<k. isl (services ! j))"
  then have run: "generateImageWithFallbacks p w h services
                  = (concat (map (attempt_events p w h) [0..<Suc k]), Inr payload)"
    unfolding generateImageWithFallbacks_def
    by (intro try_services_first_success) auto
  show "snd (generateImageWithFallbacks p w h services) = Inr payload"
    by (simp add: run)
  show "fst (generateImageWithFallbacks p w h services)
        = concat (map (attempt_events p w h) [0..<Suc k])"
    by (simp add: run)
  show "attempts (fst (generateImageWithFallbacks p w h services)) = [0..<Suc k]"
    unfolding run fst_conv by (rule attempts_run)
  show "backoff (fst (generateImageWithFallbacks p w h services))
        = (\<Sum>i = 1..k. 1000 * 2 ^ (i - 1))"
    unfolding run fst_conv by (rule backoff_run)
next
  assume a: "\<forall>j<length services. isl (services ! j)"
  show "isl (snd (generateImageWithFallbacks p w h services))"
  proof (cases "services = []")
    case True
    then show ?thesis by (simp add: generateImageWithFallbacks_def try_services_none)
  next
    case False
    with a try_services_all_fail [of 0 services p w h] show ?thesis
      by (simp add: generateImageWithFallbacks_def)
  qed
  show "attempts (fst (generateImageWithFallbacks p w h services)) = [0..<length services]"
  proof (cases "services = []")
    case True
    then show ?thesis by (simp add: generateImageWithFallbacks_def try_services_none)
  next
    case False
    with a have "generateImageWithFallbacks p w h services
                 = (concat (map (attempt_events p w h) [0..<length services]),
                    Inl (Err ''All image services failed''))"
      unfolding generateImageWithFallbacks_def by (intro try_services_all_fail) auto
    then show ?thesis
      unfolding fst_conv by (simp only: fst_conv attempts_run)
  qed
qed

theorem acquisition_first_success_and_exhaustion_witness:
  "(snd (generateImageWithFallbacks ''p'' (Some 1024) (Some 576)
           [Inl (Err ''timeout''), Inl (Err ''503''), Inr [7, 7], Inl (Err ''unused'')])
      = Inr [7, 7]
    \<and> fst (generateImageWithFallbacks ''p'' (Some 1024) (Some 576)
           [Inl (Err ''timeout''), Inl (Err ''503''), Inr [7, 7], Inl (Err ''unused'')])
      = [HttpGet 0 ''p'' (Some 1024) (Some 576), Sleep 1000,
         HttpGet 1 ''p'' (Some 1024) (Some 576), Sleep 2000,
         HttpGet 2 ''p'' (Some 1024) (Some 576)]
    \<and> backoff (fst (generateImageWithFallbacks ''p'' (Some 1024) (Some 576)
           [Inl (Err ''timeout''), Inl (Err ''503''), Inr [7, 7], Inl (Err ''unused'')]))
      = 3000)
   \<and> isl (snd (generateImageWithFallbacks ''p'' (Some 1024) (Some 576)
           [Inl (Err ''timeout''), Inl (Err ''503'')]))"
proof -
  have less2: "\<And>j. j < (2::nat) \<Longrightarrow> j = 0 \<or> j = 1" by auto
  have h1: "(2::nat) < length [Inl (Err ''timeout''), Inl (Err ''503''), Inr [7, 7 :: nat],
                               Inl (Err ''unused'')]
            \<and> [Inl (Err ''timeout''), Inl (Err ''503''), Inr [7, 7 :: nat],
                Inl (Err ''unused'')] ! 2 = Inr [7, 7]
            \<and> (\<forall>j<2. isl ([Inl (Err ''timeout''), Inl (Err ''503''), Inr [7, 7 :: nat],
                            Inl (Err ''unused'')] ! j))"
    by (auto dest: less2)
  have h2: "\<forall>j<length [Inl (Err ''timeout''), Inl (Err ''503'') :: err + bytes].
              isl ([Inl (Err ''timeout''), Inl (Err ''503'') :: err + bytes] ! j)"
    by (auto simp: less_Suc_eq)
  have sum3: "(\<Sum>i = 1..2::nat. 1000 * 2 ^ (i - 1)) = (3000::nat)"
    by code_simp
  have run3: "concat (map (attempt_events ''p'' (Some 1024) (Some 576)) [0..<Suc 2])
              = [HttpGet 0 ''p'' (Some 1024) (Some 576), Sleep 1000,
                 HttpGet 1 ''p'' (Some 1024) (Some 576), Sleep 2000,
                 HttpGet 2 ''p'' (Some 1024) (Some 576)]"
    by code_simp
  from acquisition_first_success_and_exhaustion
         [of 2 "[Inl (Err ''timeout''), Inl (Err ''503''), Inr [7, 7], Inl (Err ''unused'')]"
             "[7, 7]" "''p''" "Some 1024" "Some 576"] h1
  have first: "snd (generateImageWithFallbacks ''p'' (Some 1024) (Some 576)
           [Inl (Err ''timeout''), Inl (Err ''503''), Inr [7, 7], Inl (Err ''unused'')])
      = Inr [7, 7]
    \<and> fst (generateImageWithFallbacks ''p'' (Some 1024) (Some 576)
           [Inl (Err ''timeout''), Inl (Err ''503''), Inr [7, 7], Inl (Err ''unused'')])
      = concat (map (attempt_events ''p'' (Some 1024) (Some 576)) [0..<Suc 2])
    \<and> backoff (fst (generateImageWithFallbacks ''p'' (Some 1024) (Some 576)
           [Inl (Err ''timeout''), Inl (Err ''503''), Inr [7, 7], Inl (Err ''unused'')]))
      = (\<Sum>i = 1..2. 1000 * 2 ^ (i - 1))"
    by blast
  from acquisition_first_success_and_exhaustion
         [of 0 "[Inl (Err ''timeout''), Inl (Err ''503'')]" "[]" "''p''" "Some 1024" "Some 576"]
       h2
  have second: "isl (snd (generateImageWithFallbacks ''p'' (Some 1024) (Some 576)
           [Inl (Err ''timeout''), Inl (Err ''503'')]))"
    by blast
  from first second show ?thesis
    unfolding sum3 run3 by blast
qed

lemma try_services_error:
  "i < length services \<Longrightarrow> snd (try_services p w h services i) = Inl er
   \<Longrightarrow> er = Err ''All image services failed''"
proof (induction "length services - i" arbitrary: i)
  case 0
  then show ?case by simp
next
  case (Suc n)
  show ?case
  proof (cases "services ! i")
    case (Inr payload)
    with Suc.prems try_services_hit [of i services payload p w h] show ?thesis by simp
  next
    case (Inl er')
    show ?thesis
    proof (cases "i = length services - 1")
      case True
      with Suc.prems Inl try_services_last [of i services er' p w h] show ?thesis by simp
    next
      case False
      with Suc.prems(1) have lt: "Suc i < length services" by simp
      from Suc.prems Inl False try_services_step [of i services er' p w h]
      have "snd (try_services p w h services (Suc i)) = Inl er" by simp
      with Suc.hyps lt show ?thesis by (intro Suc.hyps(1)) auto
    qed
  qed
qed

lemma try_services_failure:
  "try_services p w h (map get [0..<4]) 0 = (tr, Inl er)
   \<Longrightarrow> er = Err ''All image services failed''"
  using try_services_error [of 0 "map get [0..<4]" p w h er] by simp

text \<open>The acquisition loops only sleep and request.\<close>

lemma try_services_events:
  "ev \<in> set (fst (try_services p w h services i))
   \<Longrightarrow> (\<exists>ms. ev = Sleep ms) \<or> (\<exists>j. ev = HttpGet j p w h)"
proof (induction p w h services i rule: try_services.induct)
  case (1 p w h services i)
  show ?case
  proof (cases "i < length services")
    case False
    with "1.prems" show ?thesis by (subst (asm) try_services.simps) simp
  next
    case lt: True
    show ?thesis
    proof (cases "services ! i")
      case (Inr payload)
      with lt "1.prems" try_services_hit [of i services payload p w h] show ?thesis
        by (auto simp: attempt_events_def split: if_splits)
    next
      case (Inl er')
      show ?thesis
      proof (cases "i = length services - 1")
        case True
        with lt Inl "1.prems" try_services_last [of i services er' p w h] show ?thesis
          by (auto simp: attempt_events_def split: if_splits)
      next
        case False
        from lt Inl False try_services_step [of i services er' p w h] "1.prems"
        have "ev \<in> set (attempt_events p w h i)
              \<or> ev \<in> set (fst (try_services p w h services (Suc i)))"
          by simp
        then show ?thesis
        proof
          assume "ev \<in> set (attempt_events p w h i)"
          then show ?thesis by (auto simp: attempt_events_def split: if_splits)
        next
          assume "ev \<in> set (fst (try_services p w h services (Suc i)))"
          with "1.IH" [OF lt _ Inl False] show ?thesis by (simp add: attempt_events_def)
        qed
      qed
    qed
  qed
qed

lemma fetch_attempts_events:
  "ev \<in> set (fst (fetch_attempts p w h get i)) \<Longrightarrow> \<exists>j. ev = HttpGet j p w h"
proof (induction p w h get i rule: fetch_attempts.induct)
  case (1 p w h get i)
  from "1.prems" show ?case
    apply (subst (asm) fetch_attempts.simps)
    apply (auto split: if_splits sum.splits prod.splits dest: "1.IH")
    done
qed

lemma try_services_no_write:
  "try_services p w h services i = (tr, r) \<Longrightarrow> FsWrite q \<in> set tr \<Longrightarrow> False"
  using try_services_events [of "FsWrite q" p w h services i] by auto

lemma fetch_attempts_no_write:
  "fetch_attempts p w h get i = (tr, r) \<Longrightarrow> FsWrite q \<in> set tr \<Longrightarrow> False"
  using fetch_attempts_events [of "FsWrite q" p w h get i] by auto

section \<open>The generate handlers: authentication, record, transient file\<close>

lemmas handler_defs =
  generateThumbnail_def save_temp_file_def cloudinary_upload_def update_db_def catch_block_def
  log_event_def save_def

lemmas controller_defs =
  generateThumbnail_controller_def save_temp_file_controller_def
  cloudinary_upload_controller_def update_db_controller_def catch_block_controller_def
  log_event_def save_def

text \<open>
  C4. A generate request whose session carries no user identity is answered 401 by both
  handlers, and the state is what it was: no record is stored, no file is written and
  no effect (in particular no outbound call) is logged.
\<close>

theorem unauthenticated_generate_has_no_effect:
  assumes "\<not> authenticated (session_userId req)"
  shows "generateThumbnail e req s = (not_authenticated, s)
       \<and> generateThumbnail_controller e req s = (not_authenticated, s)
       \<and> status not_authenticated = 401
       \<and> store (snd (generateThumbnail e req s)) = store s
       \<and> store (snd (generateThumbnail_controller e req s)) = store s
       \<and> filter outbound (trace (snd (generateThumbnail e req s)))
           = filter outbound (trace s)
       \<and> filter outbound (trace (snd (generateThumbnail_controller e req s)))
           = filter outbound (trace s)"
  using assms
  by (cases "session_userId req")
     (simp_all add: generateThumbnail_def generateThumbnail_controller_def
        not_authenticated_def)

theorem unauthenticated_generate_has_no_effect_witness:
  "generateThumbnail example_env request_no_session empty_state
     = (not_authenticated, empty_state)
   \<and> generateThumbnail_controller example_env request_no_session empty_state
     = (not_authenticated, empty_state)
   \<and> status not_authenticated = 401"
proof -
  have "\<not> authenticated (session_userId request_no_session)"
    by (simp add: request_no_session_def session_userId_def)
  from unauthenticated_generate_has_no_effect [OF this, of example_env empty_state]
  show ?thesis by blast
qed

text \<open>
  C10. When a generate request is answered 200, the record stored under the new id is the
  record handed to the store at creation with \<open>image_url\<close> and \<open>isGenerating\<close> updated:
  owner, title, prompt, style, aspect ratio, colour scheme and text overlay have their
  creation-time values. This holds for both handlers.
\<close>

theorem completion_update_frame:
  "(status (fst (generateThumbnail e req s)) = 200 \<longrightarrow>
      (\<exists>uid url d. session_userId req = Some uid \<and> upload e = Inr url
         \<and> store (snd (generateThumbnail e req s)) (new_id e) = Some d
         \<and> d = (new_thumbnail e uid req)\<lparr>image_url := Some url, isGenerating := False\<rparr>
         \<and> userId d = userId (new_thumbnail e uid req)
         \<and> title d = title (new_thumbnail e uid req)
         \<and> prompt_used d = prompt_used (new_thumbnail e uid req)
         \<and> style d = style (new_thumbnail e uid req)
         \<and> aspect_ratio d = aspect_ratio (new_thumbnail e uid req)
         \<and> color_scheme d = color_scheme (new_thumbnail e uid req)
         \<and> text_overlay d = text_overlay (new_thumbnail e uid req)))
   \<and> (status (fst (generateThumbnail_controller e req s)) = 200 \<longrightarrow>
      (\<exists>uid url d. session_userId req = Some uid \<and> upload e = Inr url
         \<and> store (snd (generateThumbnail_controller e req s)) (new_id e) = Some d
         \<and> d = (new_thumbnail e uid req)\<lparr>image_url := Some url, isGenerating := False\<rparr>
         \<and> userId d = userId (new_thumbnail e uid req)
         \<and> title d = title (new_thumbnail e uid req)
         \<and> prompt_used d = prompt_used (new_thumbnail e uid req)
         \<and> style d = style (new_thumbnail e uid req)
         \<and> aspect_ratio d = aspect_ratio (new_thumbnail e uid req)
         \<and> color_scheme d = color_scheme (new_thumbnail e uid req)
         \<and> text_overlay d = text_overlay (new_thumbnail e uid req)))"
proof (intro conjI impI)
  assume "status (fst (generateThumbnail e req s)) = 200"
  then have "\<exists>uid url. session_userId req = Some uid \<and> upload e = Inr url
      \<and> store (snd (generateThumbnail e req s)) (new_id e)
          = Some ((new_thumbnail e uid req)\<lparr>image_url := Some url, isGenerating := False\<rparr>)"
    by (auto simp: handler_defs not_authenticated_def Let_def new_thumbnail_def
             split: option.splits sum.splits prod.splits if_splits)
  then show "\<exists>uid url d. session_userId req = Some uid \<and> upload e = Inr url
         \<and> store (snd (generateThumbnail e req s)) (new_id e) = Some d
         \<and> d = (new_thumbnail e uid req)\<lparr>image_url := Some url, isGenerating := False\<rparr>
         \<and> userId d = userId (new_thumbnail e uid req)
         \<and> title d = title (new_thumbnail e uid req)
         \<and> prompt_used d = prompt_used (new_thumbnail e uid req)
         \<and> style d = style (new_thumbnail e uid req)
         \<and> aspect_ratio d = aspect_ratio (new_thumbnail e uid req)
         \<and> color_scheme d = color_scheme (new_thumbnail e uid req)
         \<and> text_overlay d = text_overlay (new_thumbnail e uid req)"
    by fastforce
next
  assume "status (fst (generateThumbnail_controller e req s)) = 200"
  then have "\<exists>uid url. session_userId req = Some uid \<and> upload e = Inr url
      \<and> store (snd (generateThumbnail_controller e req s)) (new_id e)
          = Some ((new_thumbnail e uid req)\<lparr>image_url := Some url, isGenerating := False\<rparr>)"
    by (auto simp: controller_defs not_authenticated_def Let_def new_thumbnail_def
             split: option.splits sum.splits prod.splits if_splits)
  then show "\<exists>uid url d. session_userId req = Some uid \<and> upload e = Inr url
         \<and> store (snd (generateThumbnail_controller e req s)) (new_id e) = Some d
         \<and> d = (new_thumbnail e uid req)\<lparr>image_url := Some url, isGenerating := False\<rparr>
         \<and> userId d = userId (new_thumbnail e uid req)
         \<and> title d = title (new_thumbnail e uid req)
         \<and> prompt_used d = prompt_used (new_thumbnail e uid req)
         \<and> style d = style (new_thumbnail e uid req)
         \<and> aspect_ratio d = aspect_ratio (new_thumbnail e uid req)
         \<and> color_scheme d = color_scheme (new_thumbnail e uid req)
         \<and> text_overlay d = text_overlay (new_thumbnail e uid req)"
    by fastforce
qed

theorem completion_update_frame_witness:
  "status (fst (generateThumbnail example_env example_request empty_state)) = 200
   \<and> status (fst (generateThumbnail_controller example_env example_request empty_state)) = 200
   \<and> store (snd (generateThumbnail example_env example_request empty_state)) ''t1''
       = Some example_record
   \<and> store (snd (generateThumbnail_controller example_env example_request empty_state)) ''t1''
       = Some example_record"
proof -
  have ok: "status (fst (generateThumbnail example_env example_request empty_state)) = 200"
    by code_simp
  have ok_c:
    "status (fst (generateThumbnail_controller example_env example_request empty_state)) = 200"
    by code_simp
  have uid: "session_userId example_request = Some ''alice''"
    by (simp add: example_request_def session_userId_def)
  have url: "upload example_env
             = Inr ''https://res.cloudinary.com/demo/image/upload/thumbnails/t1.png''"
    by (simp add: example_env_def)
  have nid: "new_id example_env = ''t1''"
    by (simp add: example_env_def)
  have rec: "(new_thumbnail example_env ''alice'' example_request)
               \<lparr>image_url := Some ''https://res.cloudinary.com/demo/image/upload/thumbnails/t1.png'',
                isGenerating := False\<rparr> = example_record"
    by code_simp
  from completion_update_frame [of example_env example_request empty_state] ok ok_c
  have "store (snd (generateThumbnail example_env example_request empty_state)) ''t1''
          = Some example_record
        \<and> store (snd (generateThumbnail_controller example_env example_request empty_state))
            ''t1'' = Some example_record"
    unfolding uid url nid using rec by auto
  with ok ok_c show ?thesis by blast
qed




lemma catch_block_response:
  "fst (catch_block (e\<lparr>db_save_recovery := x\<rparr>) er th s) = fst (catch_block e er th s)"
  by (simp add: catch_block_def Let_def split: option.splits)

lemma update_db_response:
  "fst (update_db (e\<lparr>db_save_recovery := x\<rparr>) created url s) = fst (update_db e created url s)"
  by (simp add: update_db_def Let_def filepath_def catch_block_response
           split: option.splits)

lemma cloudinary_upload_response:
  "fst (cloudinary_upload (e\<lparr>db_save_recovery := x\<rparr>) created s)
   = fst (cloudinary_upload e created s)"
  by (simp add: cloudinary_upload_def Let_def filepath_def catch_block_response
           update_db_response split: sum.splits)

lemma save_temp_file_response:
  "fst (save_temp_file (e\<lparr>db_save_recovery := x\<rparr>) created buf s)
   = fst (save_temp_file e created buf s)"
  by (simp add: save_temp_file_def Let_def filepath_def catch_block_response
           cloudinary_upload_response split: option.splits)

lemma response_ignores_recovery_save:
  "fst (generateThumbnail (e\<lparr>db_save_recovery := x\<rparr>) req s) = fst (generateThumbnail e req s)"
  by (simp add: generateThumbnail_def Let_def new_thumbnail_def catch_block_response
           save_temp_file_response split: option.splits sum.splits prod.splits)

lemma acquisition_exhausted:
  assumes "\<forall>j<4. isl (http_get e j)"
  shows "snd (generateImageWithFallbacks p w h (map (http_get e) [0..<4]))
         = Inl (Err ''All image services failed'')"
proof -
  have "\<forall>j. 0 \<le> j \<and> j < length (map (http_get e) [0..<4])
            \<longrightarrow> isl (map (http_get e) [0..<4] ! j)"
    using assms by simp
  from try_services_all_fail [OF this, of p w h] show ?thesis
    by (simp add: generateImageWithFallbacks_def)
qed

lemma acquisition_first_payload:
  assumes "k < 4" and "http_get e k = Inr buf" and "\<forall>j<k. isl (http_get e j)"
  shows "snd (generateImageWithFallbacks p w h (map (http_get e) [0..<4])) = Inr buf"
proof -
  have a: "k < length (map (http_get e) [0..<4])" using assms(1) by simp
  have b: "map (http_get e) [0..<4] ! k = Inr buf" using assms(1,2) by simp
  have c: "\<forall>j. 0 \<le> j \<and> j < k \<longrightarrow> isl (map (http_get e) [0..<4] ! j)"
    using assms(1,3) by simp
  from try_services_first_success [OF a b c, of p w h] show ?thesis
    by (simp add: generateImageWithFallbacks_def)
qed

text \<open>
  C8. Suppose the handler of part 000 has created the record and the recovery save
  throws. Whatever step stopped the pipeline - every service failing, or the file write,
  the upload, the completion save or the file delete throwing \<open>er\<close> - the response is
  the 500 with the handler's fixed message, its \<open>error\<close> is the message of that error,
  and it carries the partial record: the created record (with the uploaded URL once the
  upload has returned) marked not generating and with that error. The failed recovery
  save writes nothing and throws nothing: the store holds what it held when the pipeline
  stopped, and the response is the one the handler gives when the recovery save
  succeeds.
\<close>

theorem recovery_save_failure_is_swallowed:
  assumes "session_userId req = Some uid" and "uid \<noteq> []" and "db_create e = None"
    and "db_save_recovery e = Some save_error"
  shows
    "((\<forall>j<4. isl (http_get e j)) \<longrightarrow>
        fst (generateThumbnail e req s)
          = \<lparr>status = 500, message = ''Image generation failed but fallback used'',
             thumb = Some ((new_thumbnail e uid req)
                             \<lparr>isGenerating := False,
                              error := Some ''All image services failed''\<rparr>),
             err_text = Some ''All image services failed''\<rparr>
        \<and> store (snd (generateThumbnail e req s))
            = (store s)(new_id e \<mapsto> new_thumbnail e uid req))
   \<and> (k < 4 \<and> http_get e k = Inr buf \<and> (\<forall>j<k. isl (http_get e j)) \<longrightarrow>
        (fs_write e = Some er \<or> fs_write e = None \<and> upload e = Inl er \<longrightarrow>
           fst (generateThumbnail e req s)
             = \<lparr>status = 500, message = ''Image generation failed but fallback used'',
                thumb = Some ((new_thumbnail e uid req)
                                \<lparr>isGenerating := False,
                                 error := Some (if err_message er \<noteq> [] then err_message er
                                                else ''Generation failed'')\<rparr>),
                err_text = Some (err_message er)\<rparr>
           \<and> store (snd (generateThumbnail e req s))
               = (store s)(new_id e \<mapsto> new_thumbnail e uid req))
      \<and> (fs_write e = None \<and> upload e = Inr url \<and> db_save e = Some er \<longrightarrow>
           fst (generateThumbnail e req s)
             = \<lparr>status = 500, message = ''Image generation failed but fallback used'',
                thumb = Some ((new_thumbnail e uid req)
                                \<lparr>image_url := Some url, isGenerating := False,
                                 error := Some (if err_message er \<noteq> [] then err_message er
                                                else ''Generation failed'')\<rparr>),
                err_text = Some (err_message er)\<rparr>
           \<and> store (snd (generateThumbnail e req s))
               = (store s)(new_id e \<mapsto> new_thumbnail e uid req))
      \<and> (fs_write e = None \<and> upload e = Inr url \<and> db_save e = None
           \<and> fs_unlink e = Some er \<longrightarrow>
           fst (generateThumbnail e req s)
             = \<lparr>status = 500, message = ''Image generation failed but fallback used'',
                thumb = Some ((new_thumbnail e uid req)
                                \<lparr>image_url := Some url, isGenerating := False,
                                 error := Some (if err_message er \<noteq> [] then err_message er
                                                else ''Generation failed'')\<rparr>),
                err_text = Some (err_message er)\<rparr>
           \<and> store (snd (generateThumbnail e req s))
               = (store s)(new_id e \<mapsto> (new_thumbnail e uid req)
                                           \<lparr>image_url := Some url, isGenerating := False\<rparr>)))
   \<and> fst (generateThumbnail e req s)
       = fst (generateThumbnail (e\<lparr>db_save_recovery := None\<rparr>) req s)"
proof (intro conjI impI)
  let ?created = "new_thumbnail e uid req"
  let ?prompt = "build_prompt (body_title req) (body_prompt req) (style ?created)
                   (color_scheme ?created)"
  obtain w h where dims: "dimensions (aspect_ratio ?created) = (w, h)"
    by (cases "dimensions (aspect_ratio ?created)") simp
  obtain tr r where acq:
    "generateImageWithFallbacks ?prompt w h (map (http_get e) [0..<4]) = (tr, r)"
    by (cases "generateImageWithFallbacks ?prompt w h (map (http_get e) [0..<4])") simp
  have nid: "doc_id ?created = new_id e"
    by (simp add: new_thumbnail_def)
  note start = assms dims acq nid
  {
    assume "\<forall>j<4. isl (http_get e j)"
    from acquisition_exhausted [OF this, of ?prompt w h] acq
    have r: "r = Inl (Err ''All image services failed'')" by simp
    show "fst (generateThumbnail e req s)
          = \<lparr>status = 500, message = ''Image generation failed but fallback used'',
             thumb = Some (?created\<lparr>isGenerating := False,
                                     error := Some ''All image services failed''\<rparr>),
             err_text = Some ''All image services failed''\<rparr>"
      using start r by (simp add: handler_defs Let_def)
    show "store (snd (generateThumbnail e req s)) = (store s)(new_id e \<mapsto> ?created)"
      using start r by (simp add: handler_defs Let_def)
  }
  show "fst (generateThumbnail e req s)
       = fst (generateThumbnail (e\<lparr>db_save_recovery := None\<rparr>) req s)"
    by (simp add: response_ignores_recovery_save)
  assume "k < 4 \<and> http_get e k = Inr buf \<and> (\<forall>j<k. isl (http_get e j))"
  then have "snd (generateImageWithFallbacks ?prompt w h (map (http_get e) [0..<4]))
             = Inr buf"
    by (intro acquisition_first_payload) auto
  with acq have r: "r = Inr buf" by simp
  {
    assume f: "fs_write e = Some er \<or> fs_write e = None \<and> upload e = Inl er"
    show "fst (generateThumbnail e req s)
             = \<lparr>status = 500, message = ''Image generation failed but fallback used'',
                thumb = Some (?created
                                \<lparr>isGenerating := False,
                                 error := Some (if err_message er \<noteq> [] then err_message er
                                                else ''Generation failed'')\<rparr>),
                err_text = Some (err_message er)\<rparr>"
      using f
    proof (elim disjE conjE)
      assume "fs_write e = Some er"
      with start r show ?thesis by (simp add: handler_defs Let_def)
    next
      assume "fs_write e = None" and "upload e = Inl er"
      with start r show ?thesis by (simp add: handler_defs Let_def)
    qed
    show "store (snd (generateThumbnail e req s)) = (store s)(new_id e \<mapsto> ?created)"
      using f
    proof (elim disjE conjE)
      assume "fs_write e = Some er"
      with start r show ?thesis by (simp add: handler_defs Let_def)
    next
      assume "fs_write e = None" and "upload e = Inl er"
      with start r show ?thesis by (simp add: handler_defs Let_def)
    qed
  }
  {
    assume f: "fs_write e = None \<and> upload e = Inr url \<and> db_save e = Some er"
    show "fst (generateThumbnail e req s)
             = \<lparr>status = 500, message = ''Image generation failed but fallback used'',
                thumb = Some (?created
                                \<lparr>image_url := Some url, isGenerating := False,
                                 error := Some (if err_message er \<noteq> [] then err_message er
                                                else ''Generation failed'')\<rparr>),
                err_text = Some (err_message er)\<rparr>"
      using start r f by (simp add: handler_defs Let_def)
    show "store (snd (generateThumbnail e req s)) = (store s)(new_id e \<mapsto> ?created)"
      using start r f by (simp add: handler_defs Let_def)
  }
  {
    assume f: "fs_write e = None \<and> upload e = Inr url \<and> db_save e = None
           \<and> fs_unlink e = Some er"
    show "fst (generateThumbnail e req s)
             = \<lparr>status = 500, message = ''Image generation failed but fallback used'',
                thumb = Some (?created
                                \<lparr>image_url := Some url, isGenerating := False,
                                 error := Some (if err_message er \<noteq> [] then err_message er
                                                else ''Generation failed'')\<rparr>),
                err_text = Some (err_message er)\<rparr>"
      using start r f by (simp add: handler_defs Let_def)
    show "store (snd (generateThumbnail e req s))
               = (store s)(new_id e \<mapsto> ?created\<lparr>image_url := Some url,
                                                     isGenerating := False\<rparr>)"
      using start r f by (simp add: handler_defs Let_def)
  }
qed

theorem recovery_save_failure_is_swallowed_witness:
  "err_text (fst (generateThumbnail env_store_down example_request empty_state))
     = Some ''All image services failed''
   \<and> store (snd (generateThumbnail env_store_down example_request empty_state))
     = (store empty_state)(''t1'' \<mapsto> new_thumbnail env_store_down ''alice'' example_request)
   \<and> err_text (fst (generateThumbnail env_write_fails_store_down example_request empty_state))
     = Some ''ENOSPC: no space left on device''
   \<and> err_text (fst (generateThumbnail env_upload_fails_store_down example_request empty_state))
     = Some ''Upload failed''
   \<and> err_text (fst (generateThumbnail env_save_fails_store_down example_request empty_state))
     = Some ''write conflict''
   \<and> err_text (fst (generateThumbnail env_unlink_fails_store_down example_request empty_state))
     = Some ''EBUSY: resource busy or locked''
   \<and> map_option error
       (thumb (fst (generateThumbnail env_unlink_fails_store_down example_request empty_state)))
     = Some (Some ''EBUSY: resource busy or locked'')"
proof -
  have uid: "session_userId example_request = Some ''alice''"
    by (simp add: example_request_def session_userId_def)
  have ne: "''alice'' \<noteq> []" by simp
  have down: "\<forall>j<4. isl (http_get env_store_down j)"
    by (simp add: env_store_down_def env_providers_down_def)
  have e0: "db_create env_store_down = None"
    "db_save_recovery env_store_down = Some (Err ''connection closed'')"
    "new_id env_store_down = ''t1''"
    by (simp_all add: env_store_down_def env_providers_down_def example_env_def)
  have e1: "db_create env_write_fails_store_down = None"
    "db_save_recovery env_write_fails_store_down = Some (Err ''connection closed'')"
    "(0::nat) < 4 \<and> http_get env_write_fails_store_down 0 = Inr [137, 80, 78, 71]
       \<and> (\<forall>j<0. isl (http_get env_write_fails_store_down j))"
    "fs_write env_write_fails_store_down = Some (Err ''ENOSPC: no space left on device'')"
    by (simp_all add: env_write_fails_store_down_def example_env_def)
  have e2: "db_create env_upload_fails_store_down = None"
    "db_save_recovery env_upload_fails_store_down = Some (Err ''connection closed'')"
    "(0::nat) < 4 \<and> http_get env_upload_fails_store_down 0 = Inr [137, 80, 78, 71]
       \<and> (\<forall>j<0. isl (http_get env_upload_fails_store_down j))"
    "fs_write env_upload_fails_store_down = None
       \<and> upload env_upload_fails_store_down = Inl (Err ''Upload failed'')"
    by (simp_all add: env_upload_fails_store_down_def env_upload_fails_def example_env_def)
  have e3: "db_create env_save_fails_store_down = None"
    "db_save_recovery env_save_fails_store_down = Some (Err ''connection closed'')"
    "(0::nat) < 4 \<and> http_get env_save_fails_store_down 0 = Inr [137, 80, 78, 71]
       \<and> (\<forall>j<0. isl (http_get env_save_fails_store_down j))"
    "fs_write env_save_fails_store_down = None
       \<and> upload env_save_fails_store_down
           = Inr ''https://res.cloudinary.com/demo/image/upload/thumbnails/t1.png''
       \<and> db_save env_save_fails_store_down = Some (Err ''write conflict'')"
    by (simp_all add: env_save_fails_store_down_def example_env_def)
  have e4: "db_create env_unlink_fails_store_down = None"
    "db_save_recovery env_unlink_fails_store_down = Some (Err ''connection closed'')"
    "(0::nat) < 4 \<and> http_get env_unlink_fails_store_down 0 = Inr [137, 80, 78, 71]
       \<and> (\<forall>j<0. isl (http_get env_unlink_fails_store_down j))"
    "fs_write env_unlink_fails_store_down = None
       \<and> upload env_unlink_fails_store_down
           = Inr ''https://res.cloudinary.com/demo/image/upload/thumbnails/t1.png''
       \<and> db_save env_unlink_fails_store_down = None
       \<and> fs_unlink env_unlink_fails_store_down = Some (Err ''EBUSY: resource busy or locked'')"
    by (simp_all add: env_unlink_fails_store_down_def env_unlink_fails_def example_env_def)
  from recovery_save_failure_is_swallowed [OF uid ne e0(1) e0(2), where s = empty_state] down
  have a: "err_text (fst (generateThumbnail env_store_down example_request empty_state))
             = Some ''All image services failed''
           \<and> store (snd (generateThumbnail env_store_down example_request empty_state))
             = (store empty_state)
                 (''t1'' \<mapsto> new_thumbnail env_store_down ''alice'' example_request)"
    unfolding e0(3) by simp
  from recovery_save_failure_is_swallowed [OF uid ne e1(1) e1(2), where k = 0
         and buf = "[137, 80, 78, 71]" and er = "Err ''ENOSPC: no space left on device''" and s = empty_state] e1(3) e1(4)
  have b: "err_text (fst (generateThumbnail env_write_fails_store_down example_request
                            empty_state)) = Some ''ENOSPC: no space left on device''"
    by simp
  from recovery_save_failure_is_swallowed [OF uid ne e2(1) e2(2), where k = 0
         and buf = "[137, 80, 78, 71]" and er = "Err ''Upload failed''" and s = empty_state] e2(3) e2(4)
  have c: "err_text (fst (generateThumbnail env_upload_fails_store_down example_request
                            empty_state)) = Some ''Upload failed''"
    by simp
  from recovery_save_failure_is_swallowed [OF uid ne e3(1) e3(2), where k = 0
         and buf = "[137, 80, 78, 71]" and er = "Err ''write conflict''" and s = empty_state
         and url = "''https://res.cloudinary.com/demo/image/upload/thumbnails/t1.png''"] e3(3) e3(4)
  have d: "err_text (fst (generateThumbnail env_save_fails_store_down example_request
                            empty_state)) = Some ''write conflict''"
    by simp
  from recovery_save_failure_is_swallowed [OF uid ne e4(1) e4(2), where k = 0
         and buf = "[137, 80, 78, 71]" and er = "Err ''EBUSY: resource busy or locked''" and s = empty_state
         and url = "''https://res.cloudinary.com/demo/image/upload/thumbnails/t1.png''"] e4(3) e4(4)
  have f: "err_text (fst (generateThumbnail env_unlink_fails_store_down example_request
                            empty_state)) = Some ''EBUSY: resource busy or locked''
           \<and> map_option error
               (thumb (fst (generateThumbnail env_unlink_fails_store_down example_request
                              empty_state)))
             = Some (Some ''EBUSY: resource busy or locked'')"
    by simp
  from a b c d f show ?thesis by blast
qed

text \<open>
  When a generate request has written the transient file, the file is gone afterwards
  exactly when the upload returns, the completion save succeeds and the delete itself
  succeeds. This holds for both handlers.
\<close>

lemma transient_file_deleted_iff_all_succeed:
  "(FsWrite (filepath e) \<notin> set (trace s)
      \<and> FsWrite (filepath e) \<in> set (trace (snd (generateThumbnail e req s)))
      \<and> fs_write e = None
    \<longrightarrow> (files (snd (generateThumbnail e req s)) (filepath e) = None)
          = (\<not> isl (upload e) \<and> db_save e = None \<and> fs_unlink e = None))
   \<and> (FsWrite (filepath e) \<notin> set (trace s)
      \<and> FsWrite (filepath e) \<in> set (trace (snd (generateThumbnail_controller e req s)))
      \<and> fs_write e = None
    \<longrightarrow> (files (snd (generateThumbnail_controller e req s)) (filepath e) = None)
          = (\<not> isl (upload e) \<and> db_save e = None \<and> fs_unlink e = None))"
proof (intro conjI impI)
  assume "FsWrite (filepath e) \<notin> set (trace s)
      \<and> FsWrite (filepath e) \<in> set (trace (snd (generateThumbnail e req s)))
      \<and> fs_write e = None"
  then show "(files (snd (generateThumbnail e req s)) (filepath e) = None)
          = (\<not> isl (upload e) \<and> db_save e = None \<and> fs_unlink e = None)"
    apply (simp add: handler_defs Let_def generateImageWithFallbacks_def not_authenticated_def
             split: option.splits sum.splits prod.splits if_splits)
    apply (auto dest: try_services_no_write)
    done
next
  assume "FsWrite (filepath e) \<notin> set (trace s)
      \<and> FsWrite (filepath e) \<in> set (trace (snd (generateThumbnail_controller e req s)))
      \<and> fs_write e = None"
  then show "(files (snd (generateThumbnail_controller e req s)) (filepath e) = None)
          = (\<not> isl (upload e) \<and> db_save e = None \<and> fs_unlink e = None)"
    apply (simp add: controller_defs Let_def not_authenticated_def
             split: option.splits sum.splits prod.splits if_splits)
    apply (auto dest: fetch_attempts_no_write)
    done
qed

text \<open>
  C9. The handlers delete the transient file at the end of the \<open>try\<close> block, so the file
  is gone after a request that succeeds. When the upload throws, the delete is skipped:
  the file the request wrote is still there afterwards, in both handlers.
\<close>

theorem transient_file_left_after_failed_upload:
  "files (snd (generateThumbnail example_env example_request empty_state))
     ''images/thumbnail-1700000000000.png'' = None
   \<and> files (snd (generateThumbnail env_upload_fails example_request empty_state))
     ''images/thumbnail-1700000000000.png'' = Some [137, 80, 78, 71]
   \<and> files (snd (generateThumbnail_controller example_env example_request empty_state))
     ''images/thumbnail-1700000000000.png'' = None
   \<and> files (snd (generateThumbnail_controller env_upload_fails example_request empty_state))
     ''images/thumbnail-1700000000000.png'' = Some [137, 80, 78, 71]"
  by code_simp

section \<open>The delete handlers: owner scope and authentication\<close>

text \<open>
  When the store call returns, the handler of part 000 removes the record only if it has
  the requested id and is owned by the session's user; otherwise it answers 404 and
  changes nothing.
\<close>

lemma deleteThumbnail_owner_scoped:
  "deleteThumbnail None req s =
     (if \<exists>d. store s (param_id req) = Some d \<and> Some (userId d) = session_userId req
      then (\<lparr>status = 200, message = ''Thumbnail deleted successfully'', thumb = None,
              err_text = None\<rparr>, s\<lparr>store := (store s)(param_id req := None)\<rparr>)
      else (\<lparr>status = 404, message = ''Thumbnail not found'', thumb = None,
              err_text = None\<rparr>, s))"
  by (auto simp: deleteThumbnail_def findOneAndDelete_def split: option.splits)

lemma deleteThumbnail_store_error:
  "deleteThumbnail (Some er) req s
   = (\<lparr>status = 500, message = err_message er, thumb = None, err_text = None\<rparr>, s)"
  by (simp add: deleteThumbnail_def)

text \<open>
  C2. The handler of part 001, asked by another user to delete a record, leaves the
  record in the store and answers 200 with the message of a successful deletion, where
  the claim has 404.
\<close>

theorem delete_part001_reports_success_without_match:
  "status (fst (deleteThumbnail_part001 None request_bob example_state)) = 200
   \<and> message (fst (deleteThumbnail_part001 None request_bob example_state))
       = ''Thumbnail deleted successfully''
   \<and> store (snd (deleteThumbnail_part001 None request_bob example_state)) ''t1''
       = Some example_record
   \<and> status (fst (deleteThumbnail None request_bob example_state)) = 404"
  by code_simp

text \<open>
  No delete handler looks at whether the session has a user. In part 000 an
  unauthenticated request matches no record: it is answered 404, or 500 when the store
  call throws, and nothing is deleted.
\<close>

lemma deleteThumbnail_unauthenticated:
  assumes "session_userId req = None"
  shows "status (fst (deleteThumbnail db_throws req s)) \<noteq> 401
       \<and> snd (deleteThumbnail db_throws req s) = s"
  using assms
  by (auto simp: deleteThumbnail_def findOneAndDelete_def split: option.splits)

text \<open>
  C5. A delete request without a user identity is not refused as unauthenticated: the
  handler of part 000 answers 404, as for a record that does not exist, and the handler of
  part 002 answers 200 and the record is gone from the store.
\<close>

theorem unauthenticated_delete_is_not_refused:
  "status (fst (deleteThumbnail None request_no_session example_state)) = 404
   \<and> status (fst (deleteThumbnail None request_no_user example_state)) = 404
   \<and> store (snd (deleteThumbnail None request_no_user example_state)) ''t1''
       = Some example_record
   \<and> status (fst (deleteThumbnail_part002 None request_no_user example_state)) = 200
   \<and> store (snd (deleteThumbnail_part002 None request_no_user example_state)) ''t1'' = None"
  by code_simp

section \<open>Unknown keys in prompt composition and image dimensions\<close>

text \<open>The composed prompt is never empty, and a title that is set is in it, in quotes.\<close>

lemma build_prompt_not_empty: "build_prompt t u st c \<noteq> []"
  by (simp add: build_prompt_def Let_def)

lemma build_prompt_controller_not_empty: "build_prompt_controller t u st c a \<noteq> []"
  by (simp add: build_prompt_controller_def Let_def)

lemma build_prompt_embeds_title:
  assumes "truthy t"
  shows "\<exists>post. build_prompt t u st c
           = ''Create a '' @ text_or (lookup_prop stylePrompts st) ''bold thumbnail''
             @ '' for '' @ [CHR 0x22] @ template t @ [CHR 0x22] @ post"
  using assms by (simp add: build_prompt_def Let_def)

lemma build_prompt_controller_embeds_title:
  "\<exists>post. build_prompt_controller t u st c a
           = ''Create a ''
             @ text_or (lookup_prop stylePrompts_controller st) ''bold graphic thumbnail''
             @ '' for: '' @ [CHR 0x22] @ template t @ [CHR 0x22] @ post"
  by (simp add: build_prompt_controller_def Let_def)

text \<open>
  For a style key and a colour key that are neither entries of the tables nor names
  inherited from \<open>Object.prototype\<close>, the prompt has the default style phrase and no
  colour clause.
\<close>

lemma build_prompt_unknown_keys:
  assumes "map_of stylePrompts st = None" and "st \<notin> set object_prototype_keys"
    and "map_of colorSchemeDescriptions c = None" and "c \<notin> set object_prototype_keys"
  shows "build_prompt t u st c
         = ''Create a bold thumbnail''
           @ (if truthy t then '' for '' @ [CHR 0x22] @ template t @ [CHR 0x22] else [])
           @ (if truthy u then ''. '' @ template u else [])
           @ ''. YouTube thumbnail, high CTR, 16:9 composition''"
  using assms by (simp add: build_prompt_def Let_def lookup_prop_def)

text \<open>
  C6. For the style key \<open>constructor\<close>, which is not in the style table, the composer
  does not use the default phrase: the prompt names the source text of the inherited
  function. For the colour key \<open>constructor\<close>, which is not in the colour table, the
  colour clause is not left out. The same holds in ThumbnailController.ts.
\<close>

theorem composer_inherited_key_evaluation:
  "build_prompt (JStr ''Test'') JUndefined ''constructor'' ''nothing''
     = ''Create a function Object() { [native code] } for '' @ [CHR 0x22] @ ''Test''
       @ [CHR 0x22] @ ''. YouTube thumbnail, high CTR, 16:9 composition''
   \<and> build_prompt (JStr ''Test'') JUndefined ''nothing'' ''constructor''
     = ''Create a bold thumbnail for '' @ [CHR 0x22] @ ''Test'' @ [CHR 0x22]
       @ '', function Object() { [native code] }. YouTube thumbnail, high CTR, 16:9 composition''
   \<and> build_prompt_controller (JStr ''Test'') JUndefined ''constructor'' ''nothing'' ''16:9''
     = ''Create a function Object() { [native code] } for: '' @ [CHR 0x22] @ ''Test''
       @ [CHR 0x22] @ '' Thumbnail 16:9, visually stunning, high CTR.''
   \<and> map_of stylePrompts ''constructor'' = None
   \<and> map_of colorSchemeDescriptions ''constructor'' = None"
  by code_simp

text \<open>
  The keys of the table of part 000 give the table's dimensions, and a key that is
  neither in the table nor inherited gives the 16:9 default.
\<close>

lemma dimensions_table:
  "dimensions ''16:9'' = (Some 1024, Some 576)
   \<and> dimensions ''1:1'' = (Some 1024, Some 1024)
   \<and> dimensions ''9:16'' = (Some 576, Some 1024)
   \<and> dimensions ''4:3'' = (Some 1024, Some 768)"
  by code_simp

lemma dimensions_default:
  assumes "map_of aspectMap k = None" and "k \<notin> set object_prototype_keys"
  shows "dimensions k = (Some 1024, Some 576)"
  using assms by (simp add: dimensions_def lookup_prop_def)

lemma dimensions_controller_table:
  "dimensions_controller ''16:9'' = Inr (Some 1024, Some 576)
   \<and> dimensions_controller ''1:1'' = Inr (Some 1024, Some 1024)
   \<and> dimensions_controller ''9:16'' = Inr (Some 576, Some 1024)"
  by code_simp

text \<open>
  C7. The key \<open>constructor\<close> is not in the table of part 000, and the dimensions it
  resolves to are not 1024 by 576: width and height are both undefined. In
  ThumbnailController.ts the same key makes the handler throw, and the key \<open>4:3\<close>, absent
  from that file's table, resolves to 1024 by 576 where the claim has 1024 by 768.
\<close>

theorem dimensions_inherited_key_evaluation:
  "map_of aspectMap ''constructor'' = None
   \<and> dimensions ''constructor'' = (None, None)
   \<and> dimensions_controller ''constructor''
       = Inl (Err (''(aspectMap[cleanAspect] || '' @ [CHR 0x22] @ ''1024x576'' @ [CHR 0x22]
                   @ '').split is not a function''))
   \<and> dimensions_controller ''4:3'' = Inr (Some 1024, Some 576)"
  by code_simp

end
